theory Spec2Isabelle
  imports Main
begin

section \<open>Data model of \<open>NumberFiltering.tsx\<close>\<close>

text \<open>
  The component keeps a list of \<open>PhoneNumber\<close> objects. The field \<open>hasWhatsApp\<close> is
  declared \<open>boolean | null\<close>, but line 366 stores the value of
  \<open>result.status === 'valid' && result.wa_id\<close> in it, which at run time is \<open>false\<close>, a
  string or \<open>undefined\<close>; the model therefore keeps the run-time value.
\<close>

datatype jsval = Null | Undefined | JBool bool | JStr string

fun truthy :: "jsval \<Rightarrow> bool" where
  "truthy Null = False"
| "truthy Undefined = False"
| "truthy (JBool b) = b"
| "truthy (JStr s) = (s \<noteq> [])"

datatype status = Pending | Checking | Done | Error

record PhoneNumber =
  number :: string
  hasWhatsApp :: jsval
  status :: status
  error :: "string option"
  normalizedNumber :: "string option"
  country :: "string option"
  isValid :: bool

datatype vstatus = Valid | Invalid

record ValidationResult =
  input :: string
  vr_status :: vstatus
  wa_id :: "string option"

record FilterSettings =
  batchSize :: nat
  delayBetweenBatches :: nat
  maxRetries :: nat
  retryDelay :: nat
  useMetaApi :: bool
  defaultCountryCode :: string

text \<open>\<open>a || b\<close> on an optional string: \<open>undefined\<close> and the empty string are falsy.\<close>

fun jsOr :: "string option \<Rightarrow> string \<Rightarrow> string" where
  "jsOr None d = d"
| "jsOr (Some s) d = (if s = [] then d else s)"

section \<open>The normalizer: \<open>validatePhoneNumber\<close> (lines 75-118)\<close>

text \<open>
  \<open>libphonenumber-js\<close> is not part of the repository; it is a parameter of the model.
  \<open>parsePhoneNumber\<close> may throw, return \<open>undefined\<close> or return an object; the object's
  \<open>isValid()\<close> and \<open>format('E.164')\<close> may throw as well, and its \<open>country\<close> is optional.
  The second argument of the library call is the country code, absent in the
  one-argument call of line 87.
\<close>

datatype thrown = ErrorObj string | OtherValue

record parsed =
  pn_isValid :: "thrown + bool"
  pn_format :: "thrown + string"
  pn_country :: "string option"

type_synonym phonelib = "string \<Rightarrow> string option \<Rightarrow> thrown + parsed option"

record validation =
  v_isValid :: bool
  normalized :: "string option"
  v_country :: "string option"
  v_error :: "string option"

definition startsWithPlus :: "string \<Rightarrow> bool" where
  "startsWithPlus s = (case s of [] \<Rightarrow> False | c # _ \<Rightarrow> c = CHR ''+'')"

definition invalid_result :: "string \<Rightarrow> validation" where
  "invalid_result msg =
     \<lparr>v_isValid = False, normalized = None, v_country = None, v_error = Some msg\<rparr>"

text \<open>Lines 85-91: which call of the library is made.\<close>

definition libCall :: "phonelib \<Rightarrow> string \<Rightarrow> string \<Rightarrow> thrown + parsed option" where
  "libCall lib num countryCode =
     (if startsWithPlus num then lib num None else lib num (Some countryCode))"

text \<open>The body of the \<open>try\<close> block: \<open>Inl\<close> is an exception on its way to the \<open>catch\<close>.\<close>

definition validateBody :: "phonelib \<Rightarrow> string \<Rightarrow> string \<Rightarrow> thrown + validation" where
  "validateBody lib num countryCode =
     (case libCall lib num countryCode of
        Inl e \<Rightarrow> Inl e
      | Inr None \<Rightarrow> Inr (invalid_result ''Invalid phone number format'')
      | Inr (Some phoneNumber) \<Rightarrow>
          (case pn_isValid phoneNumber of
             Inl e \<Rightarrow> Inl e
           | Inr False \<Rightarrow> Inr (invalid_result ''Phone number is not valid'')
           | Inr True \<Rightarrow>
               (case pn_format phoneNumber of
                  Inl e \<Rightarrow> Inl e
                | Inr e164 \<Rightarrow>
                    Inr \<lparr>v_isValid = True, normalized = Some e164,
                         v_country = Some (jsOr (pn_country phoneNumber) countryCode),
                         v_error = None\<rparr>)))"

fun catchMessage :: "thrown \<Rightarrow> string" where
  "catchMessage (ErrorObj m) = m"
| "catchMessage OtherValue = ''Validation failed''"

definition validatePhoneNumber :: "phonelib \<Rightarrow> string \<Rightarrow> string \<Rightarrow> validation" where
  "validatePhoneNumber lib num countryCode =
     (case validateBody lib num countryCode of
        Inl e \<Rightarrow> invalid_result (catchMessage e)
      | Inr r \<Rightarrow> r)"

section \<open>Seeding the record list: \<open>processPhoneNumbers\<close> (lines 163-180)\<close>

definition seedRecord :: "phonelib \<Rightarrow> string \<Rightarrow> string \<Rightarrow> PhoneNumber" where
  "seedRecord lib countryCode num =
     (let v = validatePhoneNumber lib num countryCode in
        \<lparr>number = num, hasWhatsApp = Null,
         status = (if v_isValid v then Pending else Error),
         error = v_error v, normalizedNumber = normalized v,
         country = v_country v, isValid = v_isValid v\<rparr>)"

definition processPhoneNumbers :: "phonelib \<Rightarrow> FilterSettings \<Rightarrow> string list \<Rightarrow> PhoneNumber list" where
  "processPhoneNumbers lib cfg phoneNumbers =
     map (seedRecord lib (defaultCountryCode cfg)) phoneNumbers"

section \<open>Component state and the environment of a run\<close>

text \<open>
  One record holds the React state of the component that \<open>startProcessing\<close> touches
  (\<open>numbers\<close>, \<open>isProcessing\<close>, \<open>error\<close>, \<open>validatedCount\<close>, the \<open>AbortController\<close>
  reference: \<open>None\<close> is \<open>null\<close>, \<open>Some b\<close> a controller whose signal has \<open>aborted = b\<close>),
  the local counters of the function, and three logs of external effects: the
  argument of every \<open>checkWhatsAppNumbers\<close> call, the rows of every \<open>upsert\<close> and the
  text of every file that \<open>exportResults\<close> hands to the browser.
  The functional updates \<open>setNumbers(prev => ...)\<close> are applied in the order they are
  issued. The displayed percentage (a rounded floating-point quotient) and the
  \<open>validCount\<close>/\<open>totalValidNumbers\<close> pair, whose value depends on when React runs the
  updater, are left out; so are the delays, which only pass time.
\<close>

record world =
  numbers :: "PhoneNumber list"
  isProcessing :: bool
  errorState :: "string option"
  validatedCount :: nat
  abortControllerRef :: "bool option"
  processedCount :: nat
  retryCount :: nat
  requests :: "string list list"
  upserts :: "(string \<times> string) list list"
  downloads :: "string list"

text \<open>
  What one call of \<open>checkWhatsAppNumbers\<close> meets: the outcome of the \<open>fetch\<close> of the edge
  function, the outcome of \<open>simulateWhatsAppCheck\<close>, and whether the user pressed the
  cancel button while the call was pending. The client is indexed by the number of
  calls made before and sees the requested numbers.
\<close>

datatype fetch_outcome = FetchResults "ValidationResult list" | FetchAbort | FetchFail

datatype sim_outcome = SimResults "ValidationResult list" | SimAbort | SimFail string

record reply =
  fetched :: fetch_outcome
  simulated :: sim_outcome
  cancelClicked :: bool

type_synonym client = "nat \<Rightarrow> string list \<Rightarrow> reply"

text \<open>
  Lines 195-229 and the \<open>catch\<close> of lines 264-270: an aborted call yields the empty
  result list, any other failure of the fetch falls back to the simulation, and only a
  failure of the simulation rejects the call (\<open>Inl\<close> carries \<open>error.message\<close>).
\<close>

definition simulateOutcome :: "reply \<Rightarrow> string + ValidationResult list" where
  "simulateOutcome r =
     (case simulated r of
        SimResults xs \<Rightarrow> Inr xs
      | SimAbort \<Rightarrow> Inr []
      | SimFail m \<Rightarrow> Inl m)"

definition checkWhatsAppNumbers :: "FilterSettings \<Rightarrow> reply \<Rightarrow> string + ValidationResult list" where
  "checkWhatsAppNumbers cfg r =
     (if \<not> useMetaApi cfg then simulateOutcome r
      else (case fetched r of
              FetchResults xs \<Rightarrow> Inr xs
            | FetchAbort \<Rightarrow> Inr []
            | FetchFail \<Rightarrow> simulateOutcome r))"

definition handleCancel :: "world \<Rightarrow> world" where
  "handleCancel s = s\<lparr>abortControllerRef := None, isProcessing := False\<rparr>"

section \<open>Updating the record list\<close>

fun findIndex :: "('a \<Rightarrow> bool) \<Rightarrow> 'a list \<Rightarrow> nat option" where
  "findIndex P [] = None"
| "findIndex P (x # xs) = (if P x then Some 0 else map_option Suc (findIndex P xs))"

text \<open>\<open>index = updated.findIndex(P); if (index !== -1) updated[index] = f(updated[index])\<close>\<close>

definition updateFirst :: "('a \<Rightarrow> bool) \<Rightarrow> ('a \<Rightarrow> 'a) \<Rightarrow> 'a list \<Rightarrow> 'a list" where
  "updateFirst P f xs = (case findIndex P xs of None \<Rightarrow> xs | Some i \<Rightarrow> xs[i := f (xs ! i)])"

definition sameNumber :: "PhoneNumber \<Rightarrow> PhoneNumber \<Rightarrow> bool" where
  "sameNumber batchItem n = (number n = number batchItem)"

definition setChecking :: "PhoneNumber \<Rightarrow> PhoneNumber" where
  "setChecking n = n\<lparr>status := Checking\<rparr>"

definition markChecking :: "PhoneNumber list \<Rightarrow> PhoneNumber list \<Rightarrow> PhoneNumber list" where
  "markChecking batch prev = fold (\<lambda>b. updateFirst (sameNumber b) setChecking) batch prev"

definition digit :: "nat \<Rightarrow> char" where
  "digit n = ''0123456789'' ! n"

fun showNat :: "nat \<Rightarrow> string" where
  "showNat n = (if n < 10 then [digit n] else showNat (n div 10) @ [digit (n mod 10)])"

declare showNat.simps [simp del]

definition failMessage :: "FilterSettings \<Rightarrow> string \<Rightarrow> string" where
  "failMessage cfg msg =
     ''Failed after '' @ showNat (maxRetries cfg) @ '' attempts: '' @
     (if msg = [] then ''Unknown error'' else msg)"

definition setError :: "FilterSettings \<Rightarrow> string \<Rightarrow> PhoneNumber \<Rightarrow> PhoneNumber" where
  "setError cfg msg n = n\<lparr>status := Error, error := Some (failMessage cfg msg)\<rparr>"

definition markError :: "FilterSettings \<Rightarrow> string \<Rightarrow> PhoneNumber list \<Rightarrow> PhoneNumber list \<Rightarrow> PhoneNumber list" where
  "markError cfg msg batch prev = fold (\<lambda>b. updateFirst (sameNumber b) (setError cfg msg)) batch prev"

definition matches :: "ValidationResult \<Rightarrow> PhoneNumber \<Rightarrow> bool" where
  "matches r n = (normalizedNumber n = Some (input r) \<or> number n = input r)"

text \<open>\<open>result.status === 'valid' && result.wa_id\<close>\<close>

definition resultValue :: "ValidationResult \<Rightarrow> jsval" where
  "resultValue r =
     (case vr_status r of
        Invalid \<Rightarrow> JBool False
      | Valid \<Rightarrow> (case wa_id r of None \<Rightarrow> Undefined | Some w \<Rightarrow> JStr w))"

definition applyResult :: "ValidationResult \<Rightarrow> PhoneNumber \<Rightarrow> PhoneNumber" where
  "applyResult r n =
     n\<lparr>hasWhatsApp := resultValue r, status := Done,
       error := (if truthy (resultValue r) then None else Some ''Not on WhatsApp'')\<rparr>"

definition reconcile :: "ValidationResult list \<Rightarrow> PhoneNumber list \<Rightarrow> PhoneNumber list" where
  "reconcile batchResults prev = fold (\<lambda>r. updateFirst (matches r) (applyResult r)) batchResults prev"

text \<open>\<open>n.normalizedNumber || n.number\<close>\<close>

definition key :: "PhoneNumber \<Rightarrow> string" where
  "key n = jsOr (normalizedNumber n) (number n)"

section \<open>The scheduler: \<open>startProcessing\<close> (lines 273-413)\<close>

text \<open>Line 275: the records a run works on.\<close>

definition eligible :: "PhoneNumber list \<Rightarrow> PhoneNumber list" where
  "eligible ns = filter (\<lambda>n. isValid n \<and> status n \<noteq> Error) ns"

text \<open>Lines 282-287.\<close>

definition beginRun :: "world \<Rightarrow> world" where
  "beginRun s =
     s\<lparr>isProcessing := True, errorState := None, validatedCount := 0,
       abortControllerRef := Some False\<rparr>"

text \<open>
  One awaited call of line 323: the request is logged, and a click on the cancel button
  while the call is pending runs \<open>handleCancel\<close>.
\<close>

definition afterCall :: "reply \<Rightarrow> string list \<Rightarrow> world \<Rightarrow> world" where
  "afterCall r phones s =
     (let s1 = s\<lparr>requests := requests s @ [phones]\<rparr>
      in if cancelClicked r then handleCancel s1 else s1)"

text \<open>
  Lines 316-355. The result is \<open>Some batchResults\<close> when \<open>batchSuccess\<close> is set and
  \<open>None\<close> when the loop ends without it. After the last failed attempt the \<open>continue\<close>
  re-tests the loop condition, which is then false.
\<close>

function retryLoop ::
  "FilterSettings \<Rightarrow> client \<Rightarrow> PhoneNumber list \<Rightarrow> nat \<Rightarrow> world
     \<Rightarrow> ValidationResult list option \<times> world" where
  "retryLoop cfg cl batch attemptCount s =
     (if attemptCount < maxRetries cfg then
        (let phoneNumbersToCheck = map key batch;
             r = cl (length (requests s)) phoneNumbersToCheck;
             s1 = afterCall r phoneNumbersToCheck s
         in case checkWhatsAppNumbers cfg r of
              Inr batchResults \<Rightarrow> (Some batchResults, s1)
            | Inl msg \<Rightarrow>
                (let s2 = s1\<lparr>retryCount := retryCount s1 + 1\<rparr>
                 in if attemptCount + 1 \<ge> maxRetries cfg then
                      retryLoop cfg cl batch (attemptCount + 1)
                        (s2\<lparr>numbers := markError cfg msg batch (numbers s2),
                            processedCount := processedCount s2 + length batch,
                            validatedCount := processedCount s2 + length batch\<rparr>)
                    else retryLoop cfg cl batch (attemptCount + 1) s2))
      else (None, s))"
  by pat_completeness auto
termination
  by (relation "measure (\<lambda>(cfg, cl, batch, attemptCount, s). maxRetries cfg - attemptCount)") auto

declare retryLoop.simps [simp del]

text \<open>Lines 302-388: one iteration of the \<open>for\<close> loop after the abort test.\<close>

definition batchStep :: "FilterSettings \<Rightarrow> client \<Rightarrow> PhoneNumber list \<Rightarrow> world \<Rightarrow> world" where
  "batchStep cfg cl batch s =
     (case retryLoop cfg cl batch 0 (s\<lparr>numbers := markChecking batch (numbers s)\<rparr>) of
        (None, s2) \<Rightarrow> s2
      | (Some batchResults, s2) \<Rightarrow>
          s2\<lparr>numbers := reconcile batchResults (numbers s2),
             processedCount := processedCount s2 + length batch,
             validatedCount := processedCount s2 + length batch\<rparr>)"

text \<open>
  Lines 297-389. \<open>validNumbers.slice(i, i + batchSize)\<close> is \<open>take batchSize (drop i ...)\<close>.
  With \<open>batchSize = 0\<close> the index never advances and the loop does not return: that is
  the value \<open>None\<close>. The test of line 298 reads \<open>aborted\<close> through the reference, so
  it is false when the reference is \<open>null\<close>.
\<close>

function forLoop ::
  "FilterSettings \<Rightarrow> client \<Rightarrow> PhoneNumber list \<Rightarrow> nat \<Rightarrow> world \<Rightarrow> world option" where
  "forLoop cfg cl validNumbers i s =
     (if i < length validNumbers then
        (if abortControllerRef s = Some True then Some s
         else if batchSize cfg = 0 then None
         else forLoop cfg cl validNumbers (i + batchSize cfg)
                (batchStep cfg cl (take (batchSize cfg) (drop i validNumbers)) s))
      else Some s)"
  by pat_completeness auto
termination
  by (relation "measure (\<lambda>(cfg, cl, validNumbers, i, s). length validNumbers - i)") auto

declare forLoop.simps [simp del]

text \<open>
  Lines 391-402. \<open>numbers\<close> is the constant of the render in which \<open>startProcessing\<close> was
  created, not the list the updaters have produced since; the filter compares with
  \<open>=== true\<close>. The timestamp column is left out.
\<close>

definition persist :: "PhoneNumber list \<Rightarrow> world \<Rightarrow> world" where
  "persist closureNumbers s =
     (let validNumbers = map key (filter (\<lambda>n. hasWhatsApp n = JBool True) closureNumbers)
      in if validNumbers \<noteq> [] then
           s\<lparr>upserts := upserts s @ [map (\<lambda>num. (num, remove1 (CHR ''+'') num)) validNumbers]\<rparr>
         else s)"

text \<open>
  The \<open>try\<close> block, lines 289-405. The block declares its own \<open>const validNumbers\<close> at
  line 392, so every \<open>validNumbers\<close> inside the block (lines 290, 297 and 302) is that
  binding and not the one of line 275. The binding is a parameter here: \<open>None\<close> is a
  binding that is not yet initialised, and reading it at line 290 throws a
  \<open>ReferenceError\<close>; \<open>Some vn\<close> is the block as it runs when the reads see the list
  \<open>vn\<close>. The outer \<open>option\<close> is \<open>None\<close> when the loop does not return; \<open>Inl\<close> carries the
  message of the exception and the state it leaves.
\<close>

text \<open>The message is the engine's; this is the wording of V8.\<close>

definition referenceErrorMessage :: string where
  "referenceErrorMessage =
     ''Cannot access '' @ [CHR 0x27] @ ''validNumbers'' @ [CHR 0x27] @ '' before initialization''"

definition tryBlock ::
  "FilterSettings \<Rightarrow> client \<Rightarrow> PhoneNumber list \<Rightarrow> PhoneNumber list option \<Rightarrow> world
     \<Rightarrow> (string \<times> world + world) option" where
  "tryBlock cfg cl closureNumbers binding s =
     (case binding of
        None \<Rightarrow> Some (Inl (referenceErrorMessage, s))
      | Some vn \<Rightarrow>
          (case forLoop cfg cl vn 0 (s\<lparr>processedCount := 0, retryCount := 0\<rparr>) of
             None \<Rightarrow> None
           | Some s1 \<Rightarrow> Some (Inr (persist closureNumbers s1))))"

text \<open>Lines 406-412: the \<open>catch\<close> and the \<open>finally\<close>.\<close>

definition finish :: "string \<times> world + world \<Rightarrow> world" where
  "finish out =
     (let s = (case out of
                 Inl (msg, s0) \<Rightarrow>
                   s0\<lparr>errorState :=
                        Some (if msg = [] then ''An error occurred during processing'' else msg)\<rparr>
               | Inr s1 \<Rightarrow> s1)
      in s\<lparr>isProcessing := False, abortControllerRef := None\<rparr>)"

text \<open>
  The function as the source has it: at line 290 the block's own binding is not
  initialised.
\<close>

definition startProcessing :: "FilterSettings \<Rightarrow> client \<Rightarrow> world \<Rightarrow> world option" where
  "startProcessing cfg cl s =
     (let validNumbers = eligible (numbers s)
      in if validNumbers = [] then
           Some (s\<lparr>errorState := Some ''No valid phone numbers to process''\<rparr>)
         else map_option finish (tryBlock cfg cl (numbers s) None (beginRun s)))"

text \<open>Line 705 (and the branch of line 694): when the start button can be pressed.\<close>

definition startEnabled :: "world \<Rightarrow> bool" where
  "startEnabled s = (\<not> isProcessing s \<and> filter isValid (numbers s) \<noteq> [])"

section \<open>Export: \<open>exportResults\<close> (lines 415-430)\<close>

fun joinWith :: "string \<Rightarrow> string list \<Rightarrow> string" where
  "joinWith sep [] = []"
| "joinWith sep [x] = x"
| "joinWith sep (x # y # ys) = x @ sep @ joinWith sep (y # ys)"

definition reachable :: "PhoneNumber \<Rightarrow> bool" where
  "reachable n = truthy (hasWhatsApp n)"

text \<open>
  The text of the downloaded file, and the handler: it builds a blob of that text and
  clicks a temporary link; it calls no state setter.
\<close>

definition exportText :: "PhoneNumber list \<Rightarrow> string" where
  "exportText ns = joinWith [CHR 0x0A] (map key (filter reachable ns))"

definition exportResults :: "world \<Rightarrow> world" where
  "exportResults s = s\<lparr>downloads := downloads s @ [exportText (numbers s)]\<rparr>"

section \<open>The other handlers\<close>



section \<open>Concrete inputs\<close>

text \<open>
  A library stand-in that accepts exactly the strings that begin with \<open>+\<close> and derives a
  country, one that derives no country (as the library does for numbers of a
  non-geographic numbering plan), one whose parser throws, one whose \<open>isValid()\<close>
  throws, settings, records, the state of the component before any run, and clients:
  one that always fails and one that answers every call with a fixed list.
\<close>

definition demo_lib :: phonelib where
  "demo_lib num cc =
     (if startsWithPlus num then
        Inr (Some \<lparr>pn_isValid = Inr True, pn_format = Inr num, pn_country = Some ''US''\<rparr>)
      else Inl (ErrorObj ''NOT_A_NUMBER''))"

definition nogeo_lib :: phonelib where
  "nogeo_lib num cc =
     Inr (Some \<lparr>pn_isValid = Inr True, pn_format = Inr num, pn_country = None\<rparr>)"

definition throwing_lib :: phonelib where
  "throwing_lib num cc = Inl OtherValue"

definition fragile_lib :: phonelib where
  "fragile_lib num cc =
     Inr (Some \<lparr>pn_isValid = Inl (ErrorObj ''boom''), pn_format = Inr num, pn_country = None\<rparr>)"

definition demo_cfg :: FilterSettings where
  "demo_cfg =
     \<lparr>batchSize = 1, delayBetweenBatches = 1000, maxRetries = 3, retryDelay = 2000,
      useMetaApi = True, defaultCountryCode = ''CG''\<rparr>"

definition rec_a :: PhoneNumber where
  "rec_a =
     \<lparr>number = ''+1'', hasWhatsApp = Null, status = Pending, error = None,
      normalizedNumber = Some ''+1'', country = Some ''US'', isValid = True\<rparr>"

definition rec_x :: PhoneNumber where
  "rec_x =
     \<lparr>number = ''x'', hasWhatsApp = Null, status = Error, error = Some ''NOT_A_NUMBER'',
      normalizedNumber = None, country = None, isValid = False\<rparr>"

definition rec_done :: PhoneNumber where
  "rec_done = rec_a\<lparr>hasWhatsApp := JStr ''1'', status := Done\<rparr>"

text \<open>A record with a truthy \<open>hasWhatsApp\<close> and no canonical number.\<close>

definition rec_raw :: PhoneNumber where
  "rec_raw = rec_x\<lparr>hasWhatsApp := JStr ''9'', status := Done\<rparr>"

definition idle :: "PhoneNumber list \<Rightarrow> world" where
  "idle ns =
     \<lparr>numbers = ns, isProcessing = False, errorState = None, validatedCount = 0,
      abortControllerRef = None, processedCount = 0, retryCount = 0, requests = [],
      upserts = [], downloads = []\<rparr>"

text \<open>The state right after lines 282-287, before the first batch.\<close>

definition running :: "PhoneNumber list \<Rightarrow> world" where
  "running ns = beginRun (idle ns)"

definition failing_client :: client where
  "failing_client k req =
     \<lparr>fetched = FetchFail, simulated = SimFail ''down'', cancelClicked = False\<rparr>"

definition answering :: "ValidationResult list \<Rightarrow> client" where
  "answering res k req =
     \<lparr>fetched = FetchResults res, simulated = SimResults res, cancelClicked = False\<rparr>"

definition positive :: "string \<Rightarrow> string \<Rightarrow> ValidationResult" where
  "positive num w = \<lparr>input = num, vr_status = Valid, wa_id = Some w\<rparr>"

section \<open>The states of the component\<close>


section \<open>The eligible set and the exported lines, record by record\<close>

text \<open>
  These functions are not in the source. They say in words, one record at a time, which
  records a run takes (a valid record whose status is \<open>Pending\<close>, \<open>Checking\<close> or
  \<open>Done\<close>) and which lines an export has (for a record whose \<open>hasWhatsApp\<close> is \<open>true\<close>
  or a non-empty string: its canonical number, or its raw string when the canonical
  number is absent or empty). They are compared below with line 275 and lines 416-419.
\<close>

definition takenByRun :: "PhoneNumber \<Rightarrow> bool" where
  "takenByRun n =
     (isValid n \<and>
      (case status n of Pending \<Rightarrow> True | Checking \<Rightarrow> True | Done \<Rightarrow> True | Error \<Rightarrow> False))"

fun eligibleSpec :: "PhoneNumber list \<Rightarrow> PhoneNumber list" where
  "eligibleSpec [] = []"
| "eligibleSpec (n # ns) = (if takenByRun n then n # eligibleSpec ns else eligibleSpec ns)"

definition shown :: "PhoneNumber \<Rightarrow> bool" where
  "shown n =
     (case hasWhatsApp n of
        Null \<Rightarrow> False
      | Undefined \<Rightarrow> False
      | JBool b \<Rightarrow> b
      | JStr w \<Rightarrow> (case w of [] \<Rightarrow> False | c # cs \<Rightarrow> True))"

definition exportedLine :: "PhoneNumber \<Rightarrow> string" where
  "exportedLine n =
     (case normalizedNumber n of
        None \<Rightarrow> number n
      | Some canonical \<Rightarrow> (case canonical of [] \<Rightarrow> number n | c # cs \<Rightarrow> canonical))"

fun exportSpec :: "PhoneNumber list \<Rightarrow> string list" where
  "exportSpec [] = []"
| "exportSpec (n # ns) = (if shown n then exportedLine n # exportSpec ns else exportSpec ns)"

section \<open>Facts about the normalizer\<close>

lemma validatePhoneNumber_eq:
  "validatePhoneNumber lib num c =
     (case libCall lib num c of
        Inl e \<Rightarrow> invalid_result (catchMessage e)
      | Inr None \<Rightarrow> invalid_result ''Invalid phone number format''
      | Inr (Some pn) \<Rightarrow>
          (case pn_isValid pn of
             Inl e \<Rightarrow> invalid_result (catchMessage e)
           | Inr False \<Rightarrow> invalid_result ''Phone number is not valid''
           | Inr True \<Rightarrow>
               (case pn_format pn of
                  Inl e \<Rightarrow> invalid_result (catchMessage e)
                | Inr e164 \<Rightarrow>
                    \<lparr>v_isValid = True, normalized = Some e164,
                     v_country = Some (jsOr (pn_country pn) c), v_error = None\<rparr>)))"
proof -
  have body: "validateBody lib num c =
     (case libCall lib num c of
        Inl e \<Rightarrow> Inl e
      | Inr None \<Rightarrow> Inr (invalid_result ''Invalid phone number format'')
      | Inr (Some phoneNumber) \<Rightarrow>
          (case pn_isValid phoneNumber of
             Inl e \<Rightarrow> Inl e
           | Inr False \<Rightarrow> Inr (invalid_result ''Phone number is not valid'')
           | Inr True \<Rightarrow>
               (case pn_format phoneNumber of
                  Inl e \<Rightarrow> Inl e
                | Inr e164 \<Rightarrow>
                    Inr \<lparr>v_isValid = True, normalized = Some e164,
                         v_country = Some (jsOr (pn_country phoneNumber) c),
                         v_error = None\<rparr>)))"
    by (simp only: validateBody_def)
  show ?thesis
  proof (cases "libCall lib num c")
    case (Inl e)
    then show ?thesis by (simp add: validatePhoneNumber_def body)
  next
    case (Inr po)
    show ?thesis
    proof (cases po)
      case None
      with Inr show ?thesis by (simp add: validatePhoneNumber_def body)
    next
      case (Some pn)
      show ?thesis
      proof (cases "pn_isValid pn")
        case (Inl e)
        with Inr Some show ?thesis by (simp add: validatePhoneNumber_def body)
      next
        case v: (Inr ok)
        show ?thesis
        proof (cases ok)
          case False
          with Inr Some v show ?thesis by (simp add: validatePhoneNumber_def body)
        next
          case True
          with Inr Some v show ?thesis
            by (cases "pn_format pn") (simp_all add: validatePhoneNumber_def body)
        qed
      qed
    qed
  qed
qed

lemma validatePhoneNumber_shape:
  "(v_isValid (validatePhoneNumber lib num cc) \<longrightarrow>
        normalized (validatePhoneNumber lib num cc) \<noteq> None \<and>
        v_error (validatePhoneNumber lib num cc) = None) \<and>
   (\<not> v_isValid (validatePhoneNumber lib num cc) \<longrightarrow>
        v_error (validatePhoneNumber lib num cc) \<noteq> None \<and>
        normalized (validatePhoneNumber lib num cc) = None)"
  unfolding validatePhoneNumber_eq
  by (simp add: invalid_result_def split: sum.splits option.splits bool.splits)

lemma validatePhoneNumber_plus:
  assumes "startsWithPlus num"
  shows "validatePhoneNumber lib num c =
     (case lib num None of
        Inl e \<Rightarrow> invalid_result (catchMessage e)
      | Inr None \<Rightarrow> invalid_result ''Invalid phone number format''
      | Inr (Some pn) \<Rightarrow>
          (case pn_isValid pn of
             Inl e \<Rightarrow> invalid_result (catchMessage e)
           | Inr False \<Rightarrow> invalid_result ''Phone number is not valid''
           | Inr True \<Rightarrow>
               (case pn_format pn of
                  Inl e \<Rightarrow> invalid_result (catchMessage e)
                | Inr e164 \<Rightarrow>
                    \<lparr>v_isValid = True, normalized = Some e164,
                     v_country = Some (jsOr (pn_country pn) c), v_error = None\<rparr>)))"
  using assms by (simp add: validatePhoneNumber_eq libCall_def)

lemma seedRecord_fields [simp]:
  "number (seedRecord lib cc raw) = raw"
  "isValid (seedRecord lib cc raw) = v_isValid (validatePhoneNumber lib raw cc)"
  "normalizedNumber (seedRecord lib cc raw) = normalized (validatePhoneNumber lib raw cc)"
  "status (seedRecord lib cc raw) = (if v_isValid (validatePhoneNumber lib raw cc) then Pending else Error)"
  "hasWhatsApp (seedRecord lib cc raw) = Null"
  by (simp_all add: seedRecord_def Let_def)

section \<open>Facts about the loops\<close>

lemma afterCall_simps [simp]:
  "requests (afterCall r p s) = requests s @ [p]"
  "numbers (afterCall r p s) = numbers s"
  "processedCount (afterCall r p s) = processedCount s"
  "retryCount (afterCall r p s) = retryCount s"
  "validatedCount (afterCall r p s) = validatedCount s"
  "upserts (afterCall r p s) = upserts s"
  "downloads (afterCall r p s) = downloads s"
  "errorState (afterCall r p s) = errorState s"
  by (simp_all add: afterCall_def handleCancel_def Let_def)

lemma retryLoop_first_success:
  assumes "0 < maxRetries cfg"
    and "checkWhatsAppNumbers cfg (cl (length (requests s)) (map key batch)) = Inr res"
  shows "retryLoop cfg cl batch 0 s
         = (Some res, afterCall (cl (length (requests s)) (map key batch)) (map key batch) s)"
  using assms by (subst retryLoop.simps) (simp add: Let_def)

lemma batchStep_first_success:
  assumes "0 < maxRetries cfg"
    and "checkWhatsAppNumbers cfg (cl (length (requests s)) (map key batch)) = Inr res"
  shows "batchStep cfg cl batch s =
     (afterCall (cl (length (requests s)) (map key batch)) (map key batch) s)
       \<lparr>numbers := reconcile res (markChecking batch (numbers s)),
        processedCount := processedCount s + length batch,
        validatedCount := processedCount s + length batch\<rparr>"
proof -
  let ?s1 = "s\<lparr>numbers := markChecking batch (numbers s)\<rparr>"
  have "checkWhatsAppNumbers cfg (cl (length (requests ?s1)) (map key batch)) = Inr res"
    using assms(2) by simp
  then have "retryLoop cfg cl batch 0 ?s1
         = (Some res, afterCall (cl (length (requests ?s1)) (map key batch)) (map key batch) ?s1)"
    using assms(1) by (intro retryLoop_first_success)
  then show ?thesis
    by (simp add: batchStep_def afterCall_def handleCancel_def Let_def)
qed

lemma forLoop_one_batch:
  assumes "vn \<noteq> []" and "length vn \<le> batchSize cfg" and "abortControllerRef s \<noteq> Some True"
  shows "forLoop cfg cl vn 0 s = Some (batchStep cfg cl vn s)"
proof -
  have "forLoop cfg cl vn 0 s = forLoop cfg cl vn (0 + batchSize cfg) (batchStep cfg cl (take (batchSize cfg) (drop 0 vn)) s)"
    using assms by (subst forLoop.simps) auto
  also have "\<dots> = Some (batchStep cfg cl (take (batchSize cfg) (drop 0 vn)) s)"
    using assms by (subst forLoop.simps) auto
  finally show ?thesis using assms by simp
qed

section \<open>The function as written\<close>

lemma beginRun_isProcessing [simp]: "beginRun (s\<lparr>isProcessing := b\<rparr>) = beginRun s"
  by (simp add: beginRun_def)

lemma startProcessing_eq:
  "eligible (numbers s) \<noteq> [] \<Longrightarrow>
     startProcessing cfg cl s
       = Some ((beginRun s)\<lparr>errorState := Some referenceErrorMessage, isProcessing := False,
                             abortControllerRef := None\<rparr>)"
  by (simp add: startProcessing_def tryBlock_def finish_def referenceErrorMessage_def Let_def)

lemma startProcessing_total: "\<exists>s'. startProcessing cfg cl s = Some s'"
  by (cases "eligible (numbers s) = []") (simp_all add: startProcessing_eq, simp add: startProcessing_def)

lemma startProcessing_keeps:
  assumes "startProcessing cfg cl s = Some s'"
  shows "numbers s' = numbers s" and "requests s' = requests s" and "upserts s' = upserts s"
    and "downloads s' = downloads s"
proof -
  have "numbers s' = numbers s \<and> requests s' = requests s \<and> upserts s' = upserts s \<and>
        downloads s' = downloads s"
  proof (cases "eligible (numbers s) = []")
    case True
    with assms show ?thesis by (auto simp: startProcessing_def)
  next
    case False
    with assms show ?thesis by (auto simp: startProcessing_eq beginRun_def)
  qed
  then show "numbers s' = numbers s" and "requests s' = requests s" and "upserts s' = upserts s"
    and "downloads s' = downloads s"
    by simp_all
qed

section \<open>Every record of the component is a seeded record\<close>



section \<open>The source against the record-by-record descriptions\<close>

lemma eligible_spec: "eligible ns = eligibleSpec ns"
proof (induction ns)
  case Nil
  show ?case by (simp add: eligible_def)
next
  case (Cons n ns)
  then show ?case
    by (cases "status n") (simp_all add: eligible_def takenByRun_def)
qed

lemma shown_truthy: "shown n = truthy (hasWhatsApp n)"
  by (cases "hasWhatsApp n") (simp_all add: shown_def split: list.splits)

lemma exportedLine_key: "exportedLine n = key n"
  by (cases "normalizedNumber n") (simp_all add: exportedLine_def key_def split: list.splits)

lemma export_spec: "map key (filter reachable ns) = exportSpec ns"
  by (induction ns) (simp_all add: shown_truthy exportedLine_key reachable_def)

lemma joinWith_concat: "joinWith sep (x # xs) = x @ concat (map (\<lambda>y. sep @ y) xs)"
  by (induction xs arbitrary: x) simp_all

section \<open>Runs on the concrete inputs\<close>

lemma failing_client_fails [simp]:
  "checkWhatsAppNumbers demo_cfg (failing_client k req) = Inl ''down''"
  by (simp add: checkWhatsAppNumbers_def simulateOutcome_def failing_client_def demo_cfg_def)

lemma demo_cfg_simps [simp]:
  "maxRetries demo_cfg = 3" "batchSize demo_cfg = 1" "useMetaApi demo_cfg"
  "defaultCountryCode demo_cfg = ''CG''"
  by (simp_all add: demo_cfg_def)

lemma idle_simps [simp]:
  "numbers (idle ns) = ns" "requests (idle ns) = []" "abortControllerRef (idle ns) = None"
  "processedCount (idle ns) = 0" "upserts (idle ns) = []" "downloads (idle ns) = []"
  "isProcessing (idle ns) = False" "validatedCount (idle ns) = 0" "retryCount (idle ns) = 0"
  "errorState (idle ns) = None"
  by (simp_all add: idle_def)

lemma rec_fields [simp]:
  "number rec_a = ''+1''" "status rec_a = Pending" "hasWhatsApp rec_a = Null"
  "normalizedNumber rec_a = Some ''+1''" "isValid rec_a" "error rec_a = None"
  "number rec_done = ''+1''" "status rec_done = Done" "hasWhatsApp rec_done = JStr ''1''"
  "normalizedNumber rec_done = Some ''+1''" "isValid rec_done" "error rec_done = None"
  by (simp_all add: rec_a_def rec_done_def)

lemmas eval_defs = markChecking_def markError_def reconcile_def updateFirst_def sameNumber_def
  matches_def setChecking_def setError_def applyResult_def resultValue_def

lemma answering_simps [simp]:
  "checkWhatsAppNumbers demo_cfg (answering res k req) = Inr res"
  by (simp add: checkWhatsAppNumbers_def answering_def demo_cfg_def)

lemma answering_cancel [simp]: "\<not> cancelClicked (answering res k req)"
  by (simp add: answering_def)

lemma key_demo [simp]: "key rec_a = ''+1''" "key rec_done = ''+1''"
  by (simp_all add: key_def rec_a_def rec_done_def)

lemma running_simps [simp]:
  "numbers (running ns) = ns" "requests (running ns) = []"
  "abortControllerRef (running ns) = Some False" "processedCount (running ns) = 0"
  "isProcessing (running ns)"
  by (simp_all add: running_def beginRun_def)

lemma rec_x_fields [simp]:
  "number rec_x = ''x''" "status rec_x = Error" "hasWhatsApp rec_x = Null"
  "normalizedNumber rec_x = None" "\<not> isValid rec_x"
  by (simp_all add: rec_x_def)

lemma seeded_demo:
  "processPhoneNumbers demo_lib demo_cfg [''x'', ''+1''] = [rec_x, rec_a]"
  by (simp add: processPhoneNumbers_def seedRecord_def validatePhoneNumber_eq libCall_def
      demo_lib_def startsWithPlus_def invalid_result_def rec_x_def rec_a_def)

lemma fresh_run:
  "forLoop demo_cfg (answering [positive ''+1'' ''1'']) (eligible [rec_a]) 0
     ((running [rec_a])\<lparr>processedCount := 0, retryCount := 0\<rparr>)
   = Some (running [rec_a]
        \<lparr>numbers := [applyResult (positive ''+1'' ''1'') rec_a],
         processedCount := 1, validatedCount := 1, requests := [[''+1'']]\<rparr>)"
  by (simp add: eligible_def forLoop.simps batchStep_first_success afterCall_def
      handleCancel_def Let_def eval_defs positive_def running_def beginRun_def idle_def)

lemma rec_raw_fields [simp]:
  "number rec_raw = ''x''" "status rec_raw = Done" "hasWhatsApp rec_raw = JStr ''9''"
  "normalizedNumber rec_raw = None" "\<not> isValid rec_raw"
  by (simp_all add: rec_raw_def rec_x_def)

lemma failing_cancel [simp]: "\<not> cancelClicked (failing_client k req)"
  by (simp add: failing_client_def)

lemma failed_run:
  "forLoop demo_cfg failing_client (eligible [rec_a]) 0
     ((running [rec_a])\<lparr>processedCount := 0, retryCount := 0\<rparr>)
   = Some (running [rec_a]
        \<lparr>numbers := [setError demo_cfg ''down'' (setChecking rec_a)],
         processedCount := 1, retryCount := 3, validatedCount := 1,
         requests := [[''+1''], [''+1''], [''+1'']]\<rparr>)"
proof -
  let ?s = "(running [rec_a])\<lparr>processedCount := 0, retryCount := 0\<rparr>"
  have e: "eligible [rec_a] = [rec_a]" by (simp add: eligible_def)
  have n: "number (setChecking rec_a) = ''+1''" by (simp add: setChecking_def)
  have "forLoop demo_cfg failing_client [rec_a] 0 ?s
        = Some (batchStep demo_cfg failing_client [rec_a] ?s)"
    by (rule forLoop_one_batch) simp_all
  moreover have "batchStep demo_cfg failing_client [rec_a] ?s
      = running [rec_a]
        \<lparr>numbers := [setError demo_cfg ''down'' (setChecking rec_a)],
         processedCount := 1, retryCount := 3, validatedCount := 1,
         requests := [[''+1''], [''+1''], [''+1'']]\<rparr>"
    by (simp add: batchStep_def retryLoop.simps afterCall_def Let_def markChecking_def
        markError_def updateFirst_def sameNumber_def running_def beginRun_def idle_def n)
  ultimately show ?thesis by (simp add: e)
qed


section \<open>The claims\<close>

text \<open>
  C1, at the failing input: one valid \<open>Pending\<close> record, \<open>maxRetries = 3\<close> and a service
  that fails on every call. The function as written makes no verification call and
  leaves the record \<open>Pending\<close>: it ends in its \<open>catch\<close> with the \<open>ReferenceError\<close> of
  line 290. Run with its reads of \<open>validNumbers\<close> initialised, the \<open>try\<close> block makes three
  calls for the batch, not four, and then marks the record \<open>Error\<close>.
\<close>

theorem retry_not_reached:
  "maxRetries demo_cfg = 3 \<and> status rec_a = Pending \<and> requests (idle [rec_a]) = [] \<and>
   startProcessing demo_cfg failing_client (idle [rec_a])
     = Some ((idle [rec_a])\<lparr>errorState := Some referenceErrorMessage\<rparr>) \<and>
   tryBlock demo_cfg failing_client [rec_a] (Some (eligible [rec_a])) (running [rec_a])
     = Some (Inr (running [rec_a]
          \<lparr>numbers := [setError demo_cfg ''down'' (setChecking rec_a)],
           processedCount := 1, retryCount := 3, validatedCount := 1,
           requests := [[''+1''], [''+1''], [''+1'']]\<rparr>)) \<and>
   status (setError demo_cfg ''down'' (setChecking rec_a)) = Error"
proof -
  have a: "tryBlock demo_cfg failing_client [rec_a] (Some (eligible [rec_a])) (running [rec_a])
      = Some (Inr (persist [rec_a] (running [rec_a]
          \<lparr>numbers := [setError demo_cfg ''down'' (setChecking rec_a)],
           processedCount := 1, retryCount := 3, validatedCount := 1,
           requests := [[''+1''], [''+1''], [''+1'']]\<rparr>)))"
    by (simp add: tryBlock_def failed_run)
  have p: "persist [rec_a] t = t" for t
    by (simp add: persist_def)
  show ?thesis
    unfolding a p
    by (simp add: startProcessing_eq eligible_def setError_def running_def beginRun_def idle_def)
qed



text \<open>
  C4, as amended. The list of line 275 is the records that are valid and whose status
  is \<open>Pending\<close>, \<open>Checking\<close> or \<open>Done\<close>, in the order of the list; invalid records and
  records in \<open>Error\<close> are left out. The function reports
  \<open>No valid phone numbers to process\<close>, and changes nothing else, exactly when that list
  is empty.
\<close>

theorem eligible_snapshot:
  "eligible (numbers s) = eligibleSpec (numbers s) \<and>
   (startProcessing cfg cl s
      = Some (s\<lparr>errorState := Some ''No valid phone numbers to process''\<rparr>))
     = (eligibleSpec (numbers s) = [])"
proof (cases "eligible (numbers s) = []")
  case True
  then show ?thesis by (simp add: eligible_spec [symmetric] startProcessing_def)
next
  case False
  have "(beginRun s)\<lparr>errorState := Some referenceErrorMessage, isProcessing := False,
            abortControllerRef := None\<rparr>
        \<noteq> s\<lparr>errorState := Some ''No valid phone numbers to process''\<rparr>"
  proof
    assume "(beginRun s)\<lparr>errorState := Some referenceErrorMessage, isProcessing := False,
            abortControllerRef := None\<rparr>
        = s\<lparr>errorState := Some ''No valid phone numbers to process''\<rparr>"
    then have "errorState ((beginRun s)\<lparr>errorState := Some referenceErrorMessage,
            isProcessing := False, abortControllerRef := None\<rparr>)
        = errorState (s\<lparr>errorState := Some ''No valid phone numbers to process''\<rparr>)"
      by simp
    then show False by (simp add: referenceErrorMessage_def)
  qed
  with False show ?thesis
    by (simp add: eligible_spec [symmetric] startProcessing_eq)
qed

theorem done_eligible_counterexample:
  "isValid rec_done \<and> status rec_done = Done \<and> eligible [rec_done] = [rec_done] \<and>
   startProcessing demo_cfg failing_client (idle [rec_done])
     \<noteq> Some ((idle [rec_done])\<lparr>errorState := Some ''No valid phone numbers to process''\<rparr>)"
proof -
  have e: "eligible [rec_done] = [rec_done]" by (simp add: eligible_def)
  have r: "startProcessing demo_cfg failing_client (idle [rec_done])
      = Some ((idle [rec_done])\<lparr>errorState := Some referenceErrorMessage\<rparr>)"
    by (simp add: startProcessing_eq e beginRun_def idle_def)
  have "errorState ((idle [rec_done])\<lparr>errorState := Some referenceErrorMessage\<rparr>)
      \<noteq> errorState ((idle [rec_done])\<lparr>errorState := Some ''No valid phone numbers to process''\<rparr>)"
    by (simp add: referenceErrorMessage_def)
  then have "(idle [rec_done])\<lparr>errorState := Some referenceErrorMessage\<rparr>
      \<noteq> (idle [rec_done])\<lparr>errorState := Some ''No valid phone numbers to process''\<rparr>"
    by metis
  with e r show ?thesis by simp
qed

text \<open>
  C5, at the failing input: one valid \<open>Pending\<close> record and a service that reports it
  positive. Run with its reads of \<open>validNumbers\<close> initialised, the \<open>try\<close> block ends
  with the record reachable and no \<open>upsert\<close> made; the function as written makes no
  request and no \<open>upsert\<close> and reports the \<open>ReferenceError\<close>.
\<close>

theorem reachable_not_persisted:
  "tryBlock demo_cfg (answering [positive ''+1'' ''1'']) [rec_a] (Some (eligible [rec_a]))
     (running [rec_a])
     = Some (Inr (running [rec_a]
          \<lparr>numbers := [applyResult (positive ''+1'' ''1'') rec_a],
           processedCount := 1, validatedCount := 1, requests := [[''+1'']]\<rparr>)) \<and>
   reachable (applyResult (positive ''+1'' ''1'') rec_a) \<and>
   upserts (running [rec_a]) = [] \<and>
   startProcessing demo_cfg (answering [positive ''+1'' ''1'']) (idle [rec_a])
     = Some ((idle [rec_a])\<lparr>errorState := Some referenceErrorMessage\<rparr>)"
proof -
  have a: "tryBlock demo_cfg (answering [positive ''+1'' ''1'']) [rec_a] (Some (eligible [rec_a]))
        (running [rec_a])
      = Some (Inr (persist [rec_a] (running [rec_a]
        \<lparr>numbers := [applyResult (positive ''+1'' ''1'') rec_a],
         processedCount := 1, validatedCount := 1, requests := [[''+1'']]\<rparr>)))"
    by (simp add: tryBlock_def fresh_run)
  have p: "persist [rec_a] t = t" for t
    by (simp add: persist_def)
  show ?thesis
    unfolding a p
    by (simp add: startProcessing_eq eligible_def reachable_def applyResult_def resultValue_def
        positive_def running_def beginRun_def idle_def)
qed


text \<open>
  C6, as amended. For a raw string that begins with \<open>+\<close> the library is called without a
  region, and validity, canonical form and error message are the same for every default
  region. The resolved region is the one the library reports; only when the library
  reports none is the default region used, and then the results differ.
\<close>

theorem plus_prefix_region:
  assumes "startsWithPlus num"
  shows "v_isValid (validatePhoneNumber lib num c1) = v_isValid (validatePhoneNumber lib num c2) \<and>
         normalized (validatePhoneNumber lib num c1) = normalized (validatePhoneNumber lib num c2) \<and>
         v_error (validatePhoneNumber lib num c1) = v_error (validatePhoneNumber lib num c2) \<and>
         (\<not> v_isValid (validatePhoneNumber lib num c1) \<longrightarrow>
            validatePhoneNumber lib num c1 = validatePhoneNumber lib num c2) \<and>
         (\<forall>pn. lib num None = Inr (Some pn) \<longrightarrow>
            (v_isValid (validatePhoneNumber lib num c1) \<longrightarrow>
               v_country (validatePhoneNumber lib num c1) = Some (jsOr (pn_country pn) c1)) \<and>
            (pn_country pn \<noteq> None \<and> pn_country pn \<noteq> Some [] \<longrightarrow>
               validatePhoneNumber lib num c1 = validatePhoneNumber lib num c2))"
  unfolding validatePhoneNumber_plus [OF assms]
  by (auto simp: invalid_result_def split: sum.splits option.splits bool.splits)

theorem plus_prefix_region_witness:
  "startsWithPlus ''+1'' \<and>
   validatePhoneNumber demo_lib ''+1'' ''CG'' = validatePhoneNumber demo_lib ''+1'' ''FR'' \<and>
   v_country (validatePhoneNumber demo_lib ''+1'' ''CG'') = Some ''US'' \<and>
   \<not> v_isValid (validatePhoneNumber throwing_lib ''+1'' ''CG'') \<and>
   validatePhoneNumber throwing_lib ''+1'' ''CG'' = validatePhoneNumber throwing_lib ''+1'' ''FR''"
proof -
  have h: "startsWithPlus ''+1''" by (simp add: startsWithPlus_def)
  have l: "demo_lib ''+1'' None
           = Inr (Some \<lparr>pn_isValid = Inr True, pn_format = Inr ''+1'', pn_country = Some ''US''\<rparr>)"
    by (simp add: demo_lib_def startsWithPlus_def)
  have v: "v_isValid (validatePhoneNumber demo_lib ''+1'' ''CG'')"
    by (simp add: validatePhoneNumber_plus [OF h] l)
  have n: "\<not> v_isValid (validatePhoneNumber throwing_lib ''+1'' ''CG'')"
    by (simp add: validatePhoneNumber_plus [OF h] throwing_lib_def invalid_result_def)
  from plus_prefix_region [OF h, of demo_lib "''CG''" "''FR''"] l v
  have a: "validatePhoneNumber demo_lib ''+1'' ''CG'' = validatePhoneNumber demo_lib ''+1'' ''FR''"
    and b: "v_country (validatePhoneNumber demo_lib ''+1'' ''CG'') = Some ''US''"
    by auto
  from plus_prefix_region [OF h, of throwing_lib "''CG''" "''FR''"] n
  have c: "validatePhoneNumber throwing_lib ''+1'' ''CG'' = validatePhoneNumber throwing_lib ''+1'' ''FR''"
    by blast
  from h a b n c show ?thesis by blast
qed

theorem plus_prefix_region_counterexample:
  "startsWithPlus ''+8'' \<and>
   validatePhoneNumber nogeo_lib ''+8'' ''CG'' \<noteq> validatePhoneNumber nogeo_lib ''+8'' ''FR'' \<and>
   v_country (validatePhoneNumber nogeo_lib ''+8'' ''CG'') = Some ''CG'' \<and>
   v_country (validatePhoneNumber nogeo_lib ''+8'' ''FR'') = Some ''FR''"
  by (simp add: validatePhoneNumber_def validateBody_def libCall_def nogeo_lib_def
      startsWithPlus_def)


text \<open>
  C7. A record seeded from a string that does not validate has status \<open>Error\<close> and is
  not in the list of line 275. A run that is started on the seeded list returns, makes
  no verification request, and leaves the list as it was, so the record still has
  status \<open>Error\<close>.
\<close>

theorem invalid_seed_kept:
  assumes seeded: "numbers s = processPhoneNumbers lib cfg0 raws"
    and i: "i < length raws"
    and inv: "\<not> isValid (numbers s ! i)"
  shows "status (numbers s ! i) = Error \<and>
         numbers s ! i \<notin> set (eligible (numbers s)) \<and>
         (\<exists>s'. startProcessing cfg cl s = Some s' \<and> requests s' = requests s \<and>
               numbers s' = numbers s \<and> status (numbers s' ! i) = Error)"
proof -
  have rec_i: "numbers s ! i = seedRecord lib (defaultCountryCode cfg0) (raws ! i)"
    using seeded i by (simp add: processPhoneNumbers_def)
  have st: "status (numbers s ! i) = Error" using inv rec_i by simp
  have notin: "numbers s ! i \<notin> set (eligible (numbers s))"
    using inv by (simp add: eligible_def)
  obtain s' where s': "startProcessing cfg cl s = Some s'"
    using startProcessing_total by blast
  from startProcessing_keeps(1,2) [OF s'] st notin s' show ?thesis by simp
qed

theorem invalid_seed_kept_witness:
  "numbers (idle [rec_x, rec_a]) = processPhoneNumbers demo_lib demo_cfg [''x'', ''+1''] \<and>
   \<not> isValid (numbers (idle [rec_x, rec_a]) ! 0) \<and>
   status rec_x = Error \<and> eligible [rec_x, rec_a] = [rec_a] \<and>
   startProcessing demo_cfg (answering [positive ''x'' ''9'', positive ''+1'' ''1''])
       (idle [rec_x, rec_a])
     = Some ((idle [rec_x, rec_a])\<lparr>errorState := Some referenceErrorMessage\<rparr>)"
proof -
  let ?s = "idle [rec_x, rec_a]"
  have h1: "numbers ?s = processPhoneNumbers demo_lib demo_cfg [''x'', ''+1'']"
    by (simp add: seeded_demo)
  have h2: "(0::nat) < length [''x'', ''+1'']" by simp
  have h3: "\<not> isValid (numbers ?s ! 0)" by simp
  have e: "eligible [rec_x, rec_a] = [rec_a]" by (simp add: eligible_def)
  have r: "startProcessing demo_cfg (answering [positive ''x'' ''9'', positive ''+1'' ''1'']) ?s
      = Some (?s\<lparr>errorState := Some referenceErrorMessage\<rparr>)"
    by (simp add: startProcessing_eq e beginRun_def idle_def)
  from invalid_seed_kept [OF h1 h2 h3, of demo_cfg
      "answering [positive ''x'' ''9'', positive ''+1'' ''1'']"]
  have "status (numbers ?s ! 0) = Error" by blast
  then have "status rec_x = Error" by simp
  with h1 h3 e r show ?thesis by blast
qed

text \<open>
  C8, as amended. \<open>startProcessing\<close> does not read \<open>isProcessing\<close>: lines 282-287 give
  the same state whether or not a run is active, and with an eligible record the whole
  function, and its \<open>try\<close> block under either reading of \<open>validNumbers\<close>, behave the
  same. The only guard is the start button, which is enabled only while
  \<open>isProcessing\<close> is false.
\<close>

theorem start_ignores_active:
  "beginRun (s\<lparr>isProcessing := b\<rparr>) = beginRun s \<and>
   (eligible (numbers s) \<noteq> [] \<longrightarrow>
      startProcessing cfg cl (s\<lparr>isProcessing := b\<rparr>) = startProcessing cfg cl s \<and>
      map_option finish (tryBlock cfg cl (numbers s) binding (beginRun (s\<lparr>isProcessing := b\<rparr>)))
        = map_option finish (tryBlock cfg cl (numbers s) binding (beginRun s))) \<and>
   (startEnabled s \<longrightarrow> \<not> isProcessing s)"
  by (simp add: startProcessing_eq startEnabled_def)

theorem start_ignores_active_witness:
  "eligible (numbers (running [rec_a])) \<noteq> [] \<and> isProcessing (running [rec_a]) \<and>
   startProcessing demo_cfg failing_client (running [rec_a])
     = startProcessing demo_cfg failing_client ((running [rec_a])\<lparr>isProcessing := False\<rparr>) \<and>
   startEnabled (idle [rec_a]) \<and> \<not> isProcessing (idle [rec_a])"
proof -
  have e: "eligible (numbers (running [rec_a])) \<noteq> []" by (simp add: eligible_def)
  have en: "startEnabled (idle [rec_a])" by (simp add: startEnabled_def)
  from start_ignores_active [where s = "running [rec_a]" and b = False and cfg = demo_cfg
        and cl = failing_client and binding = None] e
  have a: "startProcessing demo_cfg failing_client ((running [rec_a])\<lparr>isProcessing := False\<rparr>)
      = startProcessing demo_cfg failing_client (running [rec_a])"
    by blast
  from start_ignores_active [where s = "idle [rec_a]" and b = False and cfg = demo_cfg
        and cl = failing_client and binding = None] en
  have b: "\<not> isProcessing (idle [rec_a])" by blast
  from e en a b show ?thesis by simp
qed

theorem start_while_active_counterexample:
  "isProcessing ((running [rec_a])\<lparr>validatedCount := 1\<rparr>) \<and>
   beginRun ((running [rec_a])\<lparr>validatedCount := 1\<rparr>) = running [rec_a] \<and>
   startProcessing demo_cfg failing_client ((running [rec_a])\<lparr>validatedCount := 1\<rparr>)
     = startProcessing demo_cfg failing_client (idle [rec_a]) \<and>
   startProcessing demo_cfg failing_client ((running [rec_a])\<lparr>validatedCount := 1\<rparr>)
     = Some ((idle [rec_a])\<lparr>errorState := Some referenceErrorMessage\<rparr>)"
  by (simp add: startProcessing_eq eligible_def running_def beginRun_def idle_def)


text \<open>
  C9, as amended. \<open>exportResults\<close> changes nothing but the log of downloads. The text it
  hands to the browser has one line for each record whose \<open>hasWhatsApp\<close> is \<open>true\<close> or a
  non-empty string, in the order of the list and separated by newlines; the line is
  the record's canonical number, or its raw string when the record has no canonical
  number or an empty one. Two exports in a row give the same text.
\<close>

theorem export_lines:
  "numbers (exportResults s) = numbers s \<and>
   exportResults s
     = s\<lparr>downloads := downloads s @ [joinWith [CHR 0x0A] (exportSpec (numbers s))]\<rparr> \<and>
   downloads (exportResults (exportResults s))
     = downloads s @ [joinWith [CHR 0x0A] (exportSpec (numbers s)),
                      joinWith [CHR 0x0A] (exportSpec (numbers s))] \<and>
   joinWith [CHR 0x0A] (x # xs) = x @ concat (map (\<lambda>y. [CHR 0x0A] @ y) xs)"
  by (simp add: exportResults_def exportText_def export_spec joinWith_concat)

theorem export_raw_counterexample:
  "hasWhatsApp rec_raw = JStr ''9'' \<and> reachable rec_raw \<and> normalizedNumber rec_raw = None \<and>
   number rec_raw = ''x'' \<and>
   exportResults (idle [rec_done, rec_raw])
     = (idle [rec_done, rec_raw])\<lparr>downloads := [''+1'' @ [CHR 0x0A] @ ''x'']\<rparr>"
  by (simp add: exportResults_def exportText_def reachable_def key_def)

text \<open>
  C10. \<open>validatePhoneNumber\<close> always returns a result object: an exception thrown by the
  library's parser, by \<open>isValid()\<close> or by \<open>format\<close> becomes the result with
  \<open>isValid = false\<close> and the exception's message (\<open>Validation failed\<close> for a value that is
  not an \<open>Error\<close>); every invalid result carries an error message and no canonical
  form, every valid result a canonical form and no error.
\<close>

theorem validatePhoneNumber_catches:
  "(\<forall>e. libCall lib num cc = Inl e \<longrightarrow>
        validatePhoneNumber lib num cc = invalid_result (catchMessage e)) \<and>
   (\<forall>pn e. libCall lib num cc = Inr (Some pn) \<and>
        (pn_isValid pn = Inl e \<or> pn_isValid pn = Inr True \<and> pn_format pn = Inl e) \<longrightarrow>
        validatePhoneNumber lib num cc = invalid_result (catchMessage e)) \<and>
   (v_isValid (validatePhoneNumber lib num cc) \<longrightarrow>
        normalized (validatePhoneNumber lib num cc) \<noteq> None \<and>
        v_error (validatePhoneNumber lib num cc) = None) \<and>
   (\<not> v_isValid (validatePhoneNumber lib num cc) \<longrightarrow>
        v_error (validatePhoneNumber lib num cc) \<noteq> None \<and>
        normalized (validatePhoneNumber lib num cc) = None)"
proof -
  have a: "\<forall>e. libCall lib num cc = Inl e \<longrightarrow>
        validatePhoneNumber lib num cc = invalid_result (catchMessage e)"
    by (simp add: validatePhoneNumber_eq)
  have b: "\<forall>pn e. libCall lib num cc = Inr (Some pn) \<and>
        (pn_isValid pn = Inl e \<or> pn_isValid pn = Inr True \<and> pn_format pn = Inl e) \<longrightarrow>
        validatePhoneNumber lib num cc = invalid_result (catchMessage e)"
    by (auto simp: validatePhoneNumber_eq)
  from a b validatePhoneNumber_shape [of lib num cc] show ?thesis by blast
qed

theorem validatePhoneNumber_catches_witness:
  "libCall throwing_lib ''abc'' ''CG'' = Inl OtherValue \<and>
   validatePhoneNumber throwing_lib ''abc'' ''CG'' = invalid_result ''Validation failed'' \<and>
   \<not> v_isValid (validatePhoneNumber throwing_lib ''abc'' ''CG'') \<and>
   v_error (validatePhoneNumber throwing_lib ''abc'' ''CG'') = Some ''Validation failed'' \<and>
   validatePhoneNumber fragile_lib ''abc'' ''CG'' = invalid_result ''boom'' \<and>
   v_isValid (validatePhoneNumber demo_lib ''+1'' ''CG'') \<and>
   normalized (validatePhoneNumber demo_lib ''+1'' ''CG'') = Some ''+1'' \<and>
   v_error (validatePhoneNumber demo_lib ''+1'' ''CG'') = None"
proof -
  have t: "libCall throwing_lib ''abc'' ''CG'' = Inl OtherValue"
    by (simp add: throwing_lib_def libCall_def)
  have f: "libCall fragile_lib ''abc'' ''CG''
      = Inr (Some \<lparr>pn_isValid = Inl (ErrorObj ''boom''), pn_format = Inr ''abc'',
                     pn_country = None\<rparr>)"
    by (simp add: fragile_lib_def libCall_def)
  have d: "v_isValid (validatePhoneNumber demo_lib ''+1'' ''CG'')"
    "normalized (validatePhoneNumber demo_lib ''+1'' ''CG'') = Some ''+1''"
    by (simp_all add: validatePhoneNumber_eq libCall_def demo_lib_def startsWithPlus_def)
  from validatePhoneNumber_catches [where lib = throwing_lib and num = "''abc''" and cc = "''CG''"] t
  have a: "validatePhoneNumber throwing_lib ''abc'' ''CG'' = invalid_result ''Validation failed''"
    by simp
  from validatePhoneNumber_catches [where lib = fragile_lib and num = "''abc''" and cc = "''CG''"] f
  have b: "validatePhoneNumber fragile_lib ''abc'' ''CG'' = invalid_result ''boom''"
    by simp
  from validatePhoneNumber_catches [where lib = demo_lib and num = "''+1''" and cc = "''CG''"] d
  have c: "v_error (validatePhoneNumber demo_lib ''+1'' ''CG'') = None"
    by simp
  from t a b c d show ?thesis by (simp add: invalid_result_def)
qed

end
